theory Spec2Isabelle
  imports Complex_Main
begin

section \<open>JSON values as Python sees them\<close>

text \<open>
  The SDK handles the values that \<open>json.loads\<close> produces: \<open>None\<close>, booleans, integers,
  floats, strings, lists and dictionaries with string keys. A dictionary is an association
  list in insertion order; a dictionary built by the JSON decoder has distinct keys, and
  lookup takes the first binding of a key.
\<close>

datatype json =
    JNull
  | JBool bool
  | JInt int
  | JFloat real
  | JStr string
  | JArr "json list"
  | JObj "(string \<times> json) list"

type_synonym dict = "(string \<times> json) list"

datatype error =
    XSkynetAPIError (status_code: int) (response_body: string) (message: string)
  | KeyError string
  | TypeError
  | AttributeError
  | JSONDecodeError
  | ConnectionError

text \<open>Python truthiness, as used by the \<open>or\<close> operator.\<close>

fun truthy :: "json \<Rightarrow> bool" where
  "truthy JNull = False"
| "truthy (JBool b) = b"
| "truthy (JInt n) = (n \<noteq> 0)"
| "truthy (JFloat x) = (x \<noteq> 0)"
| "truthy (JStr s) = (s \<noteq> [])"
| "truthy (JArr xs) = (xs \<noteq> [])"
| "truthy (JObj d) = (d \<noteq> [])"

definition py_or :: "json \<Rightarrow> json \<Rightarrow> json" where
  "py_or a b = (if truthy a then a else b)"

text \<open>\<open>d.get(k)\<close>, \<open>d.get(k, default)\<close>, \<open>d[k]\<close> and \<open>k in d\<close> on a dictionary.\<close>

definition dict_get :: "dict \<Rightarrow> string \<Rightarrow> json" where
  "dict_get d k = (case map_of d k of None \<Rightarrow> JNull | Some v \<Rightarrow> v)"

definition dict_get_default :: "dict \<Rightarrow> string \<Rightarrow> json \<Rightarrow> json" where
  "dict_get_default d k dflt = (case map_of d k of None \<Rightarrow> dflt | Some v \<Rightarrow> v)"

definition dict_item :: "dict \<Rightarrow> string \<Rightarrow> error + json" where
  "dict_item d k = (case map_of d k of None \<Rightarrow> Inl (KeyError k) | Some v \<Rightarrow> Inr v)"

definition dict_contains :: "dict \<Rightarrow> string \<Rightarrow> bool" where
  "dict_contains d k = (map_of d k \<noteq> None)"

text \<open>
  \<open>for x in v\<close>: a list yields its elements, a string its one-character strings, a
  dictionary its keys; anything else is not iterable.
\<close>

fun py_iter :: "json \<Rightarrow> error + json list" where
  "py_iter (JArr xs) = Inr xs"
| "py_iter (JStr s) = Inr (map (\<lambda>c. JStr [c]) s)"
| "py_iter (JObj d) = Inr (map (\<lambda>kv. JStr (fst kv)) d)"
| "py_iter _ = Inl TypeError"

text \<open>
  A list comprehension \<open>[f(x) for x in xs]\<close> where \<open>f\<close> may raise: the elements are
  converted in order and the first exception ends the comprehension.
\<close>

fun comprehension :: "('a \<Rightarrow> error + 'b) \<Rightarrow> 'a list \<Rightarrow> error + 'b list" where
  "comprehension f [] = Inr []"
| "comprehension f (x # xs) =
     (case f x of
        Inl e \<Rightarrow> Inl e
      | Inr y \<Rightarrow> (case comprehension f xs of Inl e \<Rightarrow> Inl e | Inr ys \<Rightarrow> Inr (y # ys)))"

section \<open>models.py\<close>

subsection \<open>Agent\<close>

record Agent =
  agent_id :: json
  agent_name :: json
  agent_status :: json
  agent_role :: json
  agent_model :: json
  agent_last_heartbeat :: json
  agent_metadata :: dict

definition Agent_known_keys :: "string list" where
  "Agent_known_keys =
     [''id'', ''name'', ''status'', ''role'', ''model'', ''last_heartbeat'', ''lastHeartbeat'']"

fun Agent_from_dict :: "json \<Rightarrow> error + Agent" where
  "Agent_from_dict (JObj d) =
     (case dict_item d ''id'' of
        Inl e \<Rightarrow> Inl e
      | Inr i \<Rightarrow>
          Inr \<lparr> agent_id = i,
                agent_name = dict_get_default d ''name'' i,
                agent_status = dict_get_default d ''status'' (JStr ''unknown''),
                agent_role = dict_get_default d ''role'' (JStr ''''),
                agent_model = dict_get_default d ''model'' (JStr ''''),
                agent_last_heartbeat =
                  py_or (dict_get d ''last_heartbeat'') (dict_get d ''lastHeartbeat''),
                agent_metadata = filter (\<lambda>kv. fst kv \<notin> set Agent_known_keys) d \<rparr>)"
| "Agent_from_dict _ = Inl TypeError"

subsection \<open>ProposalStep\<close>

record ProposalStep =
  step_title :: json
  step_assigned_to :: json
  step_prompt :: json
  step_status :: json
  step_result :: json

definition ProposalStep_to_dict :: "ProposalStep \<Rightarrow> dict" where
  "ProposalStep_to_dict s =
     [(''title'', step_title s),
      (''assigned_to'', step_assigned_to s),
      (''prompt'', step_prompt s)]"

fun ProposalStep_from_dict :: "json \<Rightarrow> error + ProposalStep" where
  "ProposalStep_from_dict (JObj d) =
     Inr \<lparr> step_title = dict_get_default d ''title'' (JStr ''''),
           step_assigned_to =
             dict_get_default d ''assigned_to'' (dict_get_default d ''assignedTo'' (JStr '''')),
           step_prompt = dict_get_default d ''prompt'' (JStr ''''),
           step_status = dict_get_default d ''status'' (JStr ''pending''),
           step_result = dict_get d ''result'' \<rparr>"
| "ProposalStep_from_dict _ = Inl AttributeError"

subsection \<open>Proposal\<close>

record Proposal =
  proposal_id :: json
  proposal_title :: json
  proposal_description :: json
  proposal_proposed_by :: json
  proposal_priority :: json
  proposal_status :: json
  proposal_steps :: "ProposalStep list"
  proposal_created_at :: json
  proposal_updated_at :: json
  proposal_metadata :: dict

definition Proposal_known_keys :: "string list" where
  "Proposal_known_keys =
     [''id'', ''title'', ''description'', ''proposed_by'', ''proposedBy'',
      ''priority'', ''status'', ''steps'', ''created_at'', ''createdAt'',
      ''updated_at'', ''updatedAt'']"

fun Proposal_from_dict :: "json \<Rightarrow> error + Proposal" where
  "Proposal_from_dict (JObj d) =
     (case py_iter (py_or (dict_get d ''steps'') (JArr [])) of
        Inl e \<Rightarrow> Inl e
      | Inr raw_steps \<Rightarrow>
          (case comprehension ProposalStep_from_dict raw_steps of
             Inl e \<Rightarrow> Inl e
           | Inr steps \<Rightarrow>
               Inr \<lparr> proposal_id = dict_get_default d ''id'' (JStr ''''),
                     proposal_title = dict_get_default d ''title'' (JStr ''''),
                     proposal_description = dict_get_default d ''description'' (JStr ''''),
                     proposal_proposed_by =
                       dict_get_default d ''proposed_by''
                         (dict_get_default d ''proposedBy'' (JStr '''')),
                     proposal_priority = dict_get_default d ''priority'' (JStr ''medium''),
                     proposal_status = dict_get_default d ''status'' (JStr ''pending''),
                     proposal_steps = steps,
                     proposal_created_at =
                       py_or (dict_get d ''created_at'') (dict_get d ''createdAt''),
                     proposal_updated_at =
                       py_or (dict_get d ''updated_at'') (dict_get d ''updatedAt''),
                     proposal_metadata =
                       filter (\<lambda>kv. fst kv \<notin> set Proposal_known_keys) d \<rparr>))"
| "Proposal_from_dict _ = Inl AttributeError"

subsection \<open>Mission\<close>

record Mission =
  mission_id :: json
  mission_title :: json
  mission_description :: json
  mission_status :: json
  mission_proposals :: "Proposal list"
  mission_created_at :: json
  mission_metadata :: dict

definition Mission_known_keys :: "string list" where
  "Mission_known_keys =
     [''id'', ''title'', ''description'', ''status'', ''proposals'',
      ''created_at'', ''createdAt'']"

fun Mission_from_dict :: "json \<Rightarrow> error + Mission" where
  "Mission_from_dict (JObj d) =
     (case py_iter (py_or (dict_get d ''proposals'') (JArr [])) of
        Inl e \<Rightarrow> Inl e
      | Inr raw_proposals \<Rightarrow>
          (case comprehension Proposal_from_dict raw_proposals of
             Inl e \<Rightarrow> Inl e
           | Inr proposals \<Rightarrow>
               Inr \<lparr> mission_id = dict_get_default d ''id'' (JStr ''''),
                     mission_title = dict_get_default d ''title'' (JStr ''''),
                     mission_description = dict_get_default d ''description'' (JStr ''''),
                     mission_status = dict_get_default d ''status'' (JStr ''active''),
                     mission_proposals = proposals,
                     mission_created_at =
                       py_or (dict_get d ''created_at'') (dict_get d ''createdAt''),
                     mission_metadata =
                       filter (\<lambda>kv. fst kv \<notin> set Mission_known_keys) d \<rparr>))"
| "Mission_from_dict _ = Inl AttributeError"

section \<open>client.py\<close>

subsection \<open>Strings\<close>

text \<open>\<open>s.rstrip("/")\<close> and \<open>s.lstrip("/")\<close>, and \<open>str(n)\<close> for an integer.\<close>

definition rstrip :: "char \<Rightarrow> string \<Rightarrow> string" where
  "rstrip c s = rev (dropWhile (\<lambda>x. x = c) (rev s))"

definition lstrip :: "char \<Rightarrow> string \<Rightarrow> string" where
  "lstrip c s = dropWhile (\<lambda>x. x = c) s"

definition digit_char :: "nat \<Rightarrow> char" where
  "digit_char n = ''0123456789'' ! n"

fun str_nat :: "nat \<Rightarrow> string" where
  "str_nat n = (if n < 10 then [digit_char n] else str_nat (n div 10) @ [digit_char (n mod 10)])"

declare str_nat.simps [simp del]

definition str_int :: "int \<Rightarrow> string" where
  "str_int i = (if i < 0 then CHR ''-'' # str_nat (nat (- i)) else str_nat (nat i))"

subsection \<open>Errors\<close>

text \<open>
  \<open>XSkynetAPIError.__init__\<close>: the status code and the whole response text are stored;
  only the exception's message is cut to 200 characters.
\<close>

definition XSkynetAPIError_init :: "int \<Rightarrow> string \<Rightarrow> error" where
  "XSkynetAPIError_init sc body =
     XSkynetAPIError sc body (''API error '' @ str_int sc @ '': '' @ take 200 body)"

subsection \<open>The client and its transport\<close>

record XSkynetClient =
  base_url :: string
  api_key :: string
  timeout :: int
  session_headers :: "(string \<times> string) list"
  retry_total :: int

definition XSkynetClient_init :: "string \<Rightarrow> string \<Rightarrow> int \<Rightarrow> int \<Rightarrow> XSkynetClient" where
  "XSkynetClient_init url key tmo max_retries =
     \<lparr> base_url = rstrip CHR ''/'' url,
       api_key = key,
       timeout = tmo,
       session_headers =
         [(''Authorization'', ''Bearer '' @ key),
          (''Content-Type'', ''application/json''),
          (''Accept'', ''application/json''),
          (''User-Agent'', ''xskynet-sdk-python/0.1.0'')],
       retry_total = max_retries \<rparr>"

record http_request =
  req_method :: string
  req_url :: string
  req_json :: "json option"
  req_params :: "dict option"
  req_timeout :: int

record http_response =
  resp_status_code :: int
  resp_content :: string
  resp_text :: string

text \<open>
  \<open>requests.Response.ok\<close>: the library's \<open>raise_for_status\<close> raises for a status
  from 400 to 599, and \<open>ok\<close> is true when it does not raise.
\<close>

definition resp_ok :: "http_response \<Rightarrow> bool" where
  "resp_ok r = (\<not> (400 \<le> resp_status_code r \<and> resp_status_code r < 600))"

text \<open>
  The transport (\<open>Session.request\<close>) and the JSON decoder behind \<open>Response.json\<close> are
  the \<open>requests\<close> library's; both are parameters. The transport may raise; the decoder
  gives \<open>None\<close> where \<open>Response.json\<close> raises.
\<close>

type_synonym transport = "http_request \<Rightarrow> error + http_response"
type_synonym decoder = "string \<Rightarrow> json option"

definition XSkynetClient_url :: "XSkynetClient \<Rightarrow> string \<Rightarrow> string" where
  "XSkynetClient_url c path = base_url c @ ''/'' @ lstrip CHR ''/'' path"

definition XSkynetClient_request ::
  "transport \<Rightarrow> decoder \<Rightarrow> XSkynetClient \<Rightarrow> string \<Rightarrow> string \<Rightarrow> json option \<Rightarrow> dict option
     \<Rightarrow> error + json" where
  "XSkynetClient_request send loads c method path body params =
     (case send \<lparr> req_method = method, req_url = XSkynetClient_url c path, req_json = body,
                   req_params = params, req_timeout = timeout c \<rparr> of
        Inl e \<Rightarrow> Inl e
      | Inr resp \<Rightarrow>
          if \<not> resp_ok resp
            then Inl (XSkynetAPIError_init (resp_status_code resp) (resp_text resp))
          else if resp_status_code resp = 204 \<or> resp_content resp = []
            then Inr JNull
          else (case loads (resp_content resp) of
                  None \<Rightarrow> Inl JSONDecodeError
                | Some v \<Rightarrow> Inr v))"

subsection \<open>Response unwrapping\<close>

text \<open>
  The block repeated in \<open>list_agents\<close>, \<open>list_proposals\<close> and \<open>list_missions\<close>:
  \<open>data.get(key, data.get("data", []))\<close> for a dictionary, the body itself for a list,
  and the empty list for anything else.
\<close>

fun raw_records :: "string \<Rightarrow> json \<Rightarrow> json" where
  "raw_records key (JObj d) = dict_get_default d key (dict_get_default d ''data'' (JArr []))"
| "raw_records key (JArr xs) = JArr xs"
| "raw_records key _ = JArr []"

text \<open>
  The block repeated in the single-record operations:
  \<open>if isinstance(data, dict) and key in data: data = data[key]\<close>.
\<close>

fun unwrap :: "string \<Rightarrow> json \<Rightarrow> json" where
  "unwrap key (JObj d) = (if dict_contains d key then dict_get d key else JObj d)"
| "unwrap key data = data"

subsection \<open>Agents\<close>

definition XSkynetClient_list_agents ::
  "transport \<Rightarrow> decoder \<Rightarrow> XSkynetClient \<Rightarrow> error + Agent list" where
  "XSkynetClient_list_agents send loads c =
     (case XSkynetClient_request send loads c ''GET'' ''/api/ops/agents'' None None of
        Inl e \<Rightarrow> Inl e
      | Inr data \<Rightarrow>
          (case py_iter (raw_records ''agents'' data) of
             Inl e \<Rightarrow> Inl e
           | Inr raw_agents \<Rightarrow> comprehension Agent_from_dict raw_agents))"

definition XSkynetClient_get_agent ::
  "transport \<Rightarrow> decoder \<Rightarrow> XSkynetClient \<Rightarrow> string \<Rightarrow> error + Agent" where
  "XSkynetClient_get_agent send loads c agent =
     (case XSkynetClient_request send loads c ''GET'' (''/api/ops/agents/'' @ agent) None None of
        Inl e \<Rightarrow> Inl e
      | Inr data \<Rightarrow> Agent_from_dict (unwrap ''agent'' data))"

definition XSkynetClient_send_heartbeat ::
  "transport \<Rightarrow> decoder \<Rightarrow> XSkynetClient \<Rightarrow> string \<Rightarrow> string \<Rightarrow> error + json" where
  "XSkynetClient_send_heartbeat send loads c agent st =
     XSkynetClient_request send loads c ''POST''
       (''/api/ops/agents/'' @ agent @ ''/heartbeat'')
       (Some (JObj [(''status'', JStr st)])) None"

subsection \<open>Proposals\<close>

text \<open>
  A step handed to \<open>create_proposal\<close> is a \<open>ProposalStep\<close> or a plain dictionary. The
  loop appends \<open>step.to_dict()\<close> for the first and the copy \<open>dict(step)\<close> for the second.
\<close>

datatype step_arg = StepObject ProposalStep | StepMapping dict

fun serialise_steps :: "step_arg list \<Rightarrow> dict list \<Rightarrow> dict list" where
  "serialise_steps [] serialised_steps = serialised_steps"
| "serialise_steps (StepObject step # rest) serialised_steps =
     serialise_steps rest (serialised_steps @ [ProposalStep_to_dict step])"
| "serialise_steps (StepMapping step # rest) serialised_steps =
     serialise_steps rest (serialised_steps @ [step])"

definition create_proposal_payload ::
  "string \<Rightarrow> string \<Rightarrow> string \<Rightarrow> string \<Rightarrow> step_arg list option \<Rightarrow> dict" where
  "create_proposal_payload title description proposed_by priority steps =
     [(''title'', JStr title),
      (''description'', JStr description),
      (''proposed_by'', JStr proposed_by),
      (''priority'', JStr priority),
      (''steps'',
         JArr (map JObj
           (serialise_steps (case steps of None \<Rightarrow> [] | Some ss \<Rightarrow> ss) [])))]"

definition XSkynetClient_create_proposal ::
  "transport \<Rightarrow> decoder \<Rightarrow> XSkynetClient \<Rightarrow> string \<Rightarrow> string \<Rightarrow> string \<Rightarrow> string
     \<Rightarrow> step_arg list option \<Rightarrow> error + Proposal" where
  "XSkynetClient_create_proposal send loads c title description proposed_by priority steps =
     (case XSkynetClient_request send loads c ''POST'' ''/api/ops/proposals''
             (Some (JObj (create_proposal_payload title description proposed_by priority steps)))
             None of
        Inl e \<Rightarrow> Inl e
      | Inr data \<Rightarrow> Proposal_from_dict (unwrap ''proposal'' data))"

definition list_proposals_params :: "string option \<Rightarrow> int \<Rightarrow> dict" where
  "list_proposals_params st limit =
     (case st of
        None \<Rightarrow> [(''limit'', JInt limit)]
      | Some s \<Rightarrow>
          if s \<noteq> [] then [(''limit'', JInt limit), (''status'', JStr s)]
          else [(''limit'', JInt limit)])"

definition XSkynetClient_list_proposals ::
  "transport \<Rightarrow> decoder \<Rightarrow> XSkynetClient \<Rightarrow> string option \<Rightarrow> int \<Rightarrow> error + Proposal list" where
  "XSkynetClient_list_proposals send loads c st limit =
     (case XSkynetClient_request send loads c ''GET'' ''/api/ops/proposals'' None
             (Some (list_proposals_params st limit)) of
        Inl e \<Rightarrow> Inl e
      | Inr data \<Rightarrow>
          (case py_iter (raw_records ''proposals'' data) of
             Inl e \<Rightarrow> Inl e
           | Inr raw \<Rightarrow> comprehension Proposal_from_dict raw))"

definition XSkynetClient_get_proposal ::
  "transport \<Rightarrow> decoder \<Rightarrow> XSkynetClient \<Rightarrow> string \<Rightarrow> error + Proposal" where
  "XSkynetClient_get_proposal send loads c proposal =
     (case XSkynetClient_request send loads c ''GET'' (''/api/ops/proposals/'' @ proposal)
             None None of
        Inl e \<Rightarrow> Inl e
      | Inr data \<Rightarrow> Proposal_from_dict (unwrap ''proposal'' data))"

subsection \<open>Missions\<close>

definition XSkynetClient_get_mission ::
  "transport \<Rightarrow> decoder \<Rightarrow> XSkynetClient \<Rightarrow> string \<Rightarrow> error + Mission" where
  "XSkynetClient_get_mission send loads c mission =
     (case XSkynetClient_request send loads c ''GET'' (''/api/ops/missions/'' @ mission)
             None None of
        Inl e \<Rightarrow> Inl e
      | Inr data \<Rightarrow> Mission_from_dict (unwrap ''mission'' data))"

definition XSkynetClient_list_missions ::
  "transport \<Rightarrow> decoder \<Rightarrow> XSkynetClient \<Rightarrow> int \<Rightarrow> error + Mission list" where
  "XSkynetClient_list_missions send loads c limit =
     (case XSkynetClient_request send loads c ''GET'' ''/api/ops/missions'' None
             (Some [(''limit'', JInt limit)]) of
        Inl e \<Rightarrow> Inl e
      | Inr data \<Rightarrow>
          (case py_iter (raw_records ''missions'' data) of
             Inl e \<Rightarrow> Inl e
           | Inr raw \<Rightarrow> comprehension Mission_from_dict raw))"

section \<open>The specification's wording, for comparison\<close>

text \<open>"Trailing slash stripped exactly once": one slash is removed, when there is one.\<close>

definition strip_one_trailing_slash :: "string \<Rightarrow> string" where
  "strip_one_trailing_slash s = (if s \<noteq> [] \<and> last s = CHR ''/'' then butlast s else s)"

text \<open>
  "Stripping any single leading slash on the path and inserting exactly one slash between
  base and path".
\<close>

definition join_stripping_one_slash :: "string \<Rightarrow> string \<Rightarrow> string" where
  "join_stripping_one_slash base path =
     base @ ''/'' @ (case path of [] \<Rightarrow> [] | x # rest \<Rightarrow> if x = CHR ''/'' then rest else path)"

text \<open>
  "Named fields under either naming convention": the attributes of each dataclass other
  than \<open>metadata\<close>, in snake_case as declared, and their camelCase spellings (each
  underscore dropped and the letter after it capitalised).
\<close>

definition upper_char :: "char \<Rightarrow> char" where
  "upper_char c =
     (case map_of (zip ''abcdefghijklmnopqrstuvwxyz'' ''ABCDEFGHIJKLMNOPQRSTUVWXYZ'') c of
        None \<Rightarrow> c
      | Some u \<Rightarrow> u)"

fun camel_case :: "string \<Rightarrow> string" where
  "camel_case (c # x # xs) =
     (if c = CHR ''_'' then upper_char x # camel_case xs else c # camel_case (x # xs))"
| "camel_case xs = xs"

definition Agent_fields :: "string list" where
  "Agent_fields = [''id'', ''name'', ''status'', ''role'', ''model'', ''last_heartbeat'']"

definition Proposal_fields :: "string list" where
  "Proposal_fields =
     [''id'', ''title'', ''description'', ''proposed_by'', ''priority'', ''status'', ''steps'',
      ''created_at'', ''updated_at'']"

definition Mission_fields :: "string list" where
  "Mission_fields = [''id'', ''title'', ''description'', ''status'', ''proposals'', ''created_at'']"

definition named_field :: "string list \<Rightarrow> string \<Rightarrow> bool" where
  "named_field names k = (k \<in> set names \<or> k \<in> set (map camel_case names))"

section \<open>Properties of the deserializers\<close>

text \<open>
  C5. For every mapping \<open>d\<close>, whatever extra keys it carries and whether or not it has
  \<open>status\<close> and \<open>result\<close>, \<open>ProposalStep.from_dict(d)\<close> succeeds and serializing the
  step with \<open>to_dict\<close> yields a mapping with exactly the three keys \<open>title\<close>,
  \<open>assigned_to\<close> and \<open>prompt\<close>, in that order, holding the values read from \<open>d\<close>;
  \<open>status\<close> and \<open>result\<close> are not among the keys.
\<close>

theorem ProposalStep_to_dict_from_dict:
  "\<exists>s. ProposalStep_from_dict (JObj d) = Inr s
     \<and> map fst (ProposalStep_to_dict s) = [''title'', ''assigned_to'', ''prompt'']
     \<and> ''status'' \<notin> fst ` set (ProposalStep_to_dict s)
     \<and> ''result'' \<notin> fst ` set (ProposalStep_to_dict s)
     \<and> ProposalStep_to_dict s =
         [(''title'', dict_get_default d ''title'' (JStr '''')),
          (''assigned_to'',
             dict_get_default d ''assigned_to'' (dict_get_default d ''assignedTo'' (JStr ''''))),
          (''prompt'', dict_get_default d ''prompt'' (JStr ''''))]"
  by (simp add: ProposalStep_to_dict_def)

section \<open>Stripping characters\<close>

lemma takeWhile_eq_replicate:
  "takeWhile (\<lambda>x. x = c) xs = replicate (length (takeWhile (\<lambda>x. x = c) xs)) c"
  by (induction xs) auto

lemma rstrip_decompose: "\<exists>n. s = rstrip c s @ replicate n c"
proof -
  have "rev s = takeWhile (\<lambda>x. x = c) (rev s) @ dropWhile (\<lambda>x. x = c) (rev s)" by simp
  then have "s = rev (dropWhile (\<lambda>x. x = c) (rev s)) @ rev (takeWhile (\<lambda>x. x = c) (rev s))"
    by (metis rev_append rev_rev_ident)
  then show ?thesis unfolding rstrip_def
    by (metis takeWhile_eq_replicate rev_replicate)
qed

lemma rstrip_no_trailing: "rstrip c s = [] \<or> last (rstrip c s) \<noteq> c"
  unfolding rstrip_def using hd_dropWhile [of "\<lambda>x. x = c" "rev s"] by (auto simp: last_rev)

lemma rstrip_unchanged: "s = [] \<or> last s \<noteq> c \<Longrightarrow> rstrip c s = s"
  unfolding rstrip_def by (cases "rev s") (auto simp: last_rev dest: arg_cong [where f = rev])

lemma lstrip_decompose: "\<exists>n. s = replicate n c @ lstrip c s"
  unfolding lstrip_def by (metis takeWhile_eq_replicate takeWhile_dropWhile_id)

lemma lstrip_no_leading: "lstrip c s = [] \<or> hd (lstrip c s) \<noteq> c"
  unfolding lstrip_def using hd_dropWhile [of "\<lambda>x. x = c" s] by auto

section \<open>Properties of the client\<close>

text \<open>
  C4 (as amended). The constructor stores the base URL with every trailing slash removed,
  not just one: the argument is the stored value followed by slashes only, and the stored
  value does not end in a slash. A base URL with no trailing slash is stored unchanged,
  and \<open>"https://example.com/"\<close> is stored as \<open>"https://example.com"\<close>.
\<close>

theorem base_url_strips_every_trailing_slash:
  "(\<exists>n. url = base_url (XSkynetClient_init url key tmo retries) @ replicate n CHR ''/'')
   \<and> (base_url (XSkynetClient_init url key tmo retries) = []
        \<or> last (base_url (XSkynetClient_init url key tmo retries)) \<noteq> CHR ''/'')
   \<and> (url = [] \<or> last url \<noteq> CHR ''/''
        \<longrightarrow> base_url (XSkynetClient_init url key tmo retries) = url)
   \<and> base_url (XSkynetClient_init ''https://example.com/'' key tmo retries)
        = ''https://example.com''"
proof -
  have "base_url (XSkynetClient_init u key tmo retries) = rstrip CHR ''/'' u" for u
    by (simp add: XSkynetClient_init_def)
  moreover have "rstrip CHR ''/'' ''https://example.com/'' = ''https://example.com''"
    by (simp add: rstrip_def)
  ultimately show ?thesis
    using rstrip_decompose [of url "CHR ''/''"] rstrip_no_trailing [of "CHR ''/''" url]
      rstrip_unchanged [of url "CHR ''/''"]
    by simp
qed

theorem base_url_strips_every_trailing_slash_witness:
  "base_url (XSkynetClient_init ''https://example.com'' ''key'' 30 3) = ''https://example.com''
   \<and> base_url (XSkynetClient_init ''https://example.com/'' ''key'' 30 3) = ''https://example.com''"
  using base_url_strips_every_trailing_slash [of "''https://example.com''" "''key''" 30 3]
  by simp

text \<open>
  With two trailing slashes the constructor removes both, where stripping exactly one
  would leave one.
\<close>

theorem base_url_single_strip_counterexample:
  "base_url (XSkynetClient_init ''https://example.com//'' ''key'' 30 3) = ''https://example.com''
   \<and> strip_one_trailing_slash ''https://example.com//'' = ''https://example.com/''"
  by (simp add: XSkynetClient_init_def rstrip_def strip_one_trailing_slash_def)

text \<open>
  C9 (as amended). The request URL is the stored base URL, one slash, and the path with
  every leading slash removed: the part after the inserted slash does not begin with a
  slash, a path with one more leading slash resolves to the same URL, and the base URL
  stored by the constructor does not end in a slash, so the join holds exactly one slash.
\<close>

theorem url_strips_every_leading_slash:
  "(\<exists>n rest. path = replicate n CHR ''/'' @ rest
       \<and> (rest = [] \<or> hd rest \<noteq> CHR ''/'')
       \<and> XSkynetClient_url c path = base_url c @ ''/'' @ rest)
   \<and> XSkynetClient_url c (CHR ''/'' # path) = XSkynetClient_url c path
   \<and> (c = XSkynetClient_init url key tmo retries
        \<longrightarrow> base_url c = [] \<or> last (base_url c) \<noteq> CHR ''/'')"
proof -
  obtain n where "path = replicate n CHR ''/'' @ lstrip CHR ''/'' path"
    using lstrip_decompose [of path "CHR ''/''"] by blast
  then have "\<exists>n rest. path = replicate n CHR ''/'' @ rest
       \<and> (rest = [] \<or> hd rest \<noteq> CHR ''/'')
       \<and> XSkynetClient_url c path = base_url c @ ''/'' @ rest"
    using lstrip_no_leading [of "CHR ''/''" path] unfolding XSkynetClient_url_def by blast
  moreover have "XSkynetClient_url c (CHR ''/'' # path) = XSkynetClient_url c path"
    by (simp add: XSkynetClient_url_def lstrip_def)
  moreover have "c = XSkynetClient_init url key tmo retries
        \<longrightarrow> base_url c = [] \<or> last (base_url c) \<noteq> CHR ''/''"
    using rstrip_no_trailing [of "CHR ''/''" url] by (simp add: XSkynetClient_init_def)
  ultimately show ?thesis by blast
qed

theorem url_strips_every_leading_slash_witness:
  "XSkynetClient_url (XSkynetClient_init ''https://example.com/'' ''key'' 30 3) ''/api/ops/agents''
     = ''https://example.com/api/ops/agents''
   \<and> XSkynetClient_url (XSkynetClient_init ''https://example.com/'' ''key'' 30 3) ''api/ops/agents''
     = ''https://example.com/api/ops/agents''"
  using url_strips_every_leading_slash
    [of "''api/ops/agents''" "XSkynetClient_init ''https://example.com/'' ''key'' 30 3"
        "''https://example.com/''" "''key''" 30 3]
  by (simp add: XSkynetClient_url_def XSkynetClient_init_def rstrip_def lstrip_def)

text \<open>
  A path with two leading slashes loses both, where stripping a single leading slash
  would leave a double slash at the join.
\<close>

theorem url_single_strip_counterexample:
  "XSkynetClient_url (XSkynetClient_init ''https://example.com'' ''key'' 30 3) ''//api''
     = ''https://example.com/api''
   \<and> join_stripping_one_slash
        (base_url (XSkynetClient_init ''https://example.com'' ''key'' 30 3)) ''//api''
     = ''https://example.com//api''"
  by (simp add: XSkynetClient_url_def XSkynetClient_init_def rstrip_def lstrip_def
      join_stripping_one_slash_def)

section \<open>Comprehensions\<close>

lemma comprehension_Inr_iff:
  "comprehension f xs = Inr ys \<longleftrightarrow> map f xs = map Inr ys"
proof (induction xs arbitrary: ys)
  case Nil
  show ?case by auto
next
  case (Cons x xs)
  show ?case
  proof (cases "f x")
    case (Inl e)
    then show ?thesis by (cases ys) auto
  next
    case fx: (Inr y)
    show ?thesis
    proof (cases "comprehension f xs")
      case (Inl e)
      with Cons.IH have "\<And>zs. map f xs \<noteq> map Inr zs" by auto
      with Inl fx show ?thesis by (cases ys) auto
    next
      case rest: (Inr zs)
      with Cons.IH have "map f xs = map Inr zs" by auto
      with rest fx show ?thesis by (cases ys) (auto simp: inj_map_eq_map [OF inj_Inr])
    qed
  qed
qed

section \<open>The request helper\<close>

lemma request_2xx:
  assumes "send \<lparr> req_method = method, req_url = XSkynetClient_url c path, req_json = body,
                   req_params = params, req_timeout = timeout c \<rparr> = Inr resp"
    and "200 \<le> resp_status_code resp" and "resp_status_code resp < 300"
  shows "XSkynetClient_request send loads c method path body params =
           (if resp_status_code resp = 204 \<or> resp_content resp = [] then Inr JNull
            else case loads (resp_content resp) of
                   None \<Rightarrow> Inl JSONDecodeError | Some v \<Rightarrow> Inr v)"
  using assms by (simp add: XSkynetClient_request_def resp_ok_def)

lemma request_4xx_5xx:
  assumes "send \<lparr> req_method = method, req_url = XSkynetClient_url c path, req_json = body,
                   req_params = params, req_timeout = timeout c \<rparr> = Inr resp"
    and "400 \<le> resp_status_code resp" and "resp_status_code resp < 600"
  shows "\<exists>e. XSkynetClient_request send loads c method path body params = Inl e
           \<and> status_code e = resp_status_code resp
           \<and> response_body e = resp_text resp
           \<and> message e = ''API error '' @ str_int (resp_status_code resp) @ '': ''
                @ take 200 (resp_text resp)"
  using assms by (simp add: XSkynetClient_request_def resp_ok_def XSkynetAPIError_init_def)

lemma request_other_status:
  assumes "send \<lparr> req_method = method, req_url = XSkynetClient_url c path, req_json = body,
                   req_params = params, req_timeout = timeout c \<rparr> = Inr resp"
    and "resp_status_code resp < 400 \<or> 600 \<le> resp_status_code resp"
  shows "\<forall>sc txt msg. XSkynetClient_request send loads c method path body params
           \<noteq> Inl (XSkynetAPIError sc txt msg)"
  using assms by (auto simp add: XSkynetClient_request_def resp_ok_def split: option.splits)

text \<open>
  C1. The helper raises the API error when \<open>resp.ok\<close> is false, that is for a status
  from 400 to 599 only. A response with status 304 and an empty body is outside
  [200,300), yet the helper returns the no-content result instead of raising.
\<close>

theorem request_succeeds_on_status_304:
  "XSkynetClient_request
     (\<lambda>rq. Inr \<lparr> resp_status_code = 304, resp_content = [], resp_text = [] \<rparr>)
     (\<lambda>s. None)
     (XSkynetClient_init ''https://example.com'' ''key'' 30 3)
     ''GET'' ''/api/ops/agents'' None None = Inr JNull"
  by (simp add: XSkynetClient_request_def resp_ok_def)

section \<open>Creating a proposal\<close>

lemma serialise_steps_eq:
  "serialise_steps ss acc =
     acc @ map (\<lambda>s. case s of StepObject p \<Rightarrow> ProposalStep_to_dict p | StepMapping m \<Rightarrow> m) ss"
  by (induction ss acc rule: serialise_steps.induct) simp_all

text \<open>
  C3 (as amended). The \<open>steps\<close> array of the outgoing payload has one entry for each
  input step, in the original order. A \<open>ProposalStep\<close> is converted with \<open>to_dict\<close>
  to the wire shape with exactly the keys \<open>title\<close>, \<open>assigned_to\<close> and \<open>prompt\<close>;
  a raw mapping is copied as it is, with whatever keys it has. An absent steps argument
  gives the empty array under the key \<open>steps\<close>, which the payload always has.
\<close>

theorem create_proposal_steps_payload:
  "(\<exists>xs. map_of (create_proposal_payload title description proposed_by priority (Some ss))
            ''steps'' = Some (JArr xs)
      \<and> length xs = length ss
      \<and> (\<forall>i < length ss.
           (\<forall>p. ss ! i = StepObject p \<longrightarrow>
                 xs ! i = JObj (ProposalStep_to_dict p)
               \<and> map fst (ProposalStep_to_dict p) = [''title'', ''assigned_to'', ''prompt''])
         \<and> (\<forall>m. ss ! i = StepMapping m \<longrightarrow> xs ! i = JObj m)))
   \<and> map_of (create_proposal_payload title description proposed_by priority None) ''steps''
        = Some (JArr [])
   \<and> map fst (create_proposal_payload title description proposed_by priority steps)
        = [''title'', ''description'', ''proposed_by'', ''priority'', ''steps'']"
  by (simp add: create_proposal_payload_def serialise_steps_eq ProposalStep_to_dict_def)

theorem create_proposal_steps_payload_witness:
  "map_of (create_proposal_payload ''My Task'' ''Details'' ''nova'' ''medium''
      (Some [StepObject \<lparr> step_title = JStr ''S1'', step_assigned_to = JStr ''scout'',
                           step_prompt = JStr ''Go'', step_status = JStr ''pending'',
                           step_result = JNull \<rparr>,
             StepMapping [(''title'', JStr ''S2''), (''assigned_to'', JStr ''quill''),
                          (''prompt'', JStr ''Write'')]])) ''steps''
   = Some (JArr [JObj [(''title'', JStr ''S1''), (''assigned_to'', JStr ''scout''),
                       (''prompt'', JStr ''Go'')],
                 JObj [(''title'', JStr ''S2''), (''assigned_to'', JStr ''quill''),
                       (''prompt'', JStr ''Write'')]])"
  using create_proposal_steps_payload [of "''My Task''" "''Details''" "''nova''" "''medium''"
      "[StepObject \<lparr> step_title = JStr ''S1'', step_assigned_to = JStr ''scout'',
                           step_prompt = JStr ''Go'', step_status = JStr ''pending'',
                           step_result = JNull \<rparr>,
             StepMapping [(''title'', JStr ''S2''), (''assigned_to'', JStr ''quill''),
                          (''prompt'', JStr ''Write'')]]"]
  by (simp add: create_proposal_payload_def ProposalStep_to_dict_def)

text \<open>
  A raw mapping that carries a fourth key \<open>status\<close> is placed in the payload with all
  four keys: it is not narrowed to the three-key wire shape.
\<close>

theorem create_proposal_raw_mapping_counterexample:
  "map_of (create_proposal_payload ''My Task'' ''Details'' ''nova'' ''medium''
      (Some [StepMapping [(''title'', JStr ''S1''), (''assigned_to'', JStr ''scout''),
                          (''prompt'', JStr ''Go''), (''status'', JStr ''done'')]])) ''steps''
   = Some (JArr [JObj [(''title'', JStr ''S1''), (''assigned_to'', JStr ''scout''),
                       (''prompt'', JStr ''Go''), (''status'', JStr ''done'')]])"
  by (simp add: create_proposal_payload_def)

lemma create_proposal_outgoing_request:
  assumes "send \<lparr> req_method = ''POST'',
                   req_url = XSkynetClient_url c ''/api/ops/proposals'',
                   req_json = Some (JObj (create_proposal_payload title description proposed_by
                                priority steps)),
                   req_params = None, req_timeout = timeout c \<rparr>
           = send' \<lparr> req_method = ''POST'',
                   req_url = XSkynetClient_url c ''/api/ops/proposals'',
                   req_json = Some (JObj (create_proposal_payload title description proposed_by
                                priority steps)),
                   req_params = None, req_timeout = timeout c \<rparr>"
  shows "XSkynetClient_create_proposal send loads c title description proposed_by priority steps
         = XSkynetClient_create_proposal send' loads c title description proposed_by priority
             steps"
  using assms by (simp add: XSkynetClient_create_proposal_def XSkynetClient_request_def)

section \<open>Unrecognised keys\<close>

text \<open>
  The key sets that the three metadata comprehensions exclude are the named fields of the
  entity under both naming conventions.
\<close>

lemma camel_case_last_heartbeat: "camel_case ''last_heartbeat'' = ''lastHeartbeat''"
  by (simp add: upper_char_def)

lemma named_field_Agent: "named_field Agent_fields k \<longleftrightarrow> k \<in> set Agent_known_keys"
  by (auto simp add: named_field_def Agent_fields_def Agent_known_keys_def upper_char_def)

lemma named_field_Proposal: "named_field Proposal_fields k \<longleftrightarrow> k \<in> set Proposal_known_keys"
  by (auto simp add: named_field_def Proposal_fields_def Proposal_known_keys_def upper_char_def)

lemma named_field_Mission: "named_field Mission_fields k \<longleftrightarrow> k \<in> set Mission_known_keys"
  by (auto simp add: named_field_def Mission_fields_def Mission_known_keys_def upper_char_def)

lemma map_of_filter_keys:
  "map_of (filter (\<lambda>kv. fst kv \<notin> K) d) k = (if k \<in> K then None else map_of d k)"
  by (induction d) auto

lemma Agent_metadata:
  "Agent_from_dict (JObj d) = Inr a \<Longrightarrow>
     agent_metadata a = filter (\<lambda>kv. fst kv \<notin> set Agent_known_keys) d"
  by (auto split: sum.splits)

lemma Proposal_metadata:
  "Proposal_from_dict (JObj d) = Inr p \<Longrightarrow>
     proposal_metadata p = filter (\<lambda>kv. fst kv \<notin> set Proposal_known_keys) d"
  by (auto split: sum.splits)

lemma Mission_metadata:
  "Mission_from_dict (JObj d) = Inr m \<Longrightarrow>
     mission_metadata m = filter (\<lambda>kv. fst kv \<notin> set Mission_known_keys) d"
  by (auto split: sum.splits)

text \<open>
  C7. Whenever \<open>Agent.from_dict\<close>, \<open>Proposal.from_dict\<close> or \<open>Mission.from_dict\<close>
  returns a record for the mapping \<open>d\<close>: a key that is not a named field of the entity
  under either naming convention is in the record's metadata with the value it has in
  \<open>d\<close>, and a key that is a named field under either convention is not in the metadata.
\<close>

theorem unknown_keys_kept_in_metadata:
  "(Agent_from_dict (JObj d) = Inr a \<longrightarrow>
      (\<not> named_field Agent_fields k \<longrightarrow> map_of (agent_metadata a) k = map_of d k)
    \<and> (named_field Agent_fields k \<longrightarrow> map_of (agent_metadata a) k = None))
   \<and> (Proposal_from_dict (JObj d) = Inr p \<longrightarrow>
      (\<not> named_field Proposal_fields k \<longrightarrow> map_of (proposal_metadata p) k = map_of d k)
    \<and> (named_field Proposal_fields k \<longrightarrow> map_of (proposal_metadata p) k = None))
   \<and> (Mission_from_dict (JObj d) = Inr m \<longrightarrow>
      (\<not> named_field Mission_fields k \<longrightarrow> map_of (mission_metadata m) k = map_of d k)
    \<and> (named_field Mission_fields k \<longrightarrow> map_of (mission_metadata m) k = None))"
  using Agent_metadata [of d a] Proposal_metadata [of d p] Mission_metadata [of d m]
  by (simp add: named_field_Agent named_field_Proposal named_field_Mission map_of_filter_keys)

theorem unknown_keys_kept_in_metadata_witness:
  "map_sum id (\<lambda>a. [map_of (agent_metadata a) ''team'', map_of (agent_metadata a) ''id''])
      (Agent_from_dict (JObj [(''id'', JStr ''x''), (''createdAt'', JStr ''2026-01-01''),
         (''team'', JStr ''red'')]))
     = Inr [Some (JStr ''red''), None]
   \<and> map_sum id (\<lambda>p. [map_of (proposal_metadata p) ''team'', map_of (proposal_metadata p) ''id''])
      (Proposal_from_dict (JObj [(''id'', JStr ''x''), (''createdAt'', JStr ''2026-01-01''),
         (''team'', JStr ''red'')]))
     = Inr [Some (JStr ''red''), None]
   \<and> map_sum id (\<lambda>m. [map_of (mission_metadata m) ''team'', map_of (mission_metadata m) ''id''])
      (Mission_from_dict (JObj [(''id'', JStr ''x''), (''createdAt'', JStr ''2026-01-01''),
         (''team'', JStr ''red'')]))
     = Inr [Some (JStr ''red''), None]"
  (is "map_sum id _ (Agent_from_dict (JObj ?d)) = _ \<and> _ \<and> _")
proof -
  obtain a p m where ok:
    "Agent_from_dict (JObj ?d) = Inr a" "Proposal_from_dict (JObj ?d) = Inr p"
    "Mission_from_dict (JObj ?d) = Inr m"
    by (simp add: dict_item_def dict_get_def py_or_def)
  have "\<not> named_field Agent_fields ''team''" "\<not> named_field Proposal_fields ''team''"
    "\<not> named_field Mission_fields ''team''" "named_field Agent_fields ''id''"
    "named_field Proposal_fields ''id''" "named_field Mission_fields ''id''"
    by (simp_all add: named_field_def Agent_fields_def Proposal_fields_def Mission_fields_def
        upper_char_def)
  then show ?thesis
    using unknown_keys_kept_in_metadata [of ?d a "''team''" p m]
      unknown_keys_kept_in_metadata [of ?d a "''id''" p m] ok
    by (simp del: Agent_from_dict.simps Proposal_from_dict.simps Mission_from_dict.simps)
qed

section \<open>Nested collections\<close>

lemma comprehension_succeeds_iff:
  "(\<exists>ys. comprehension f xs = Inr ys) \<longleftrightarrow> (\<forall>x \<in> set xs. \<exists>y. f x = Inr y)"
  by (induction xs) (auto split: sum.splits)

lemma ProposalStep_from_dict_succeeds_iff:
  "(\<exists>s. ProposalStep_from_dict x = Inr s) \<longleftrightarrow> (\<exists>m. x = JObj m)"
  by (cases x) auto

lemma raw_collection_absent:
  "map_of d k = None \<or> map_of d k = Some JNull \<Longrightarrow>
     py_iter (py_or (dict_get d k) (JArr [])) = Inr []"
  by (auto simp add: dict_get_def py_or_def)

lemma raw_collection_array:
  "map_of d k = Some (JArr xs) \<Longrightarrow> py_iter (py_or (dict_get d k) (JArr [])) = Inr xs"
  by (cases xs) (simp_all add: dict_get_def py_or_def)

lemma Proposal_steps:
  "Proposal_from_dict (JObj d) = Inr p \<Longrightarrow>
     \<exists>raw. py_iter (py_or (dict_get d ''steps'') (JArr [])) = Inr raw
       \<and> comprehension ProposalStep_from_dict raw = Inr (proposal_steps p)"
  by (auto split: sum.splits)

lemma Proposal_succeeds_iff:
  "(\<exists>p. Proposal_from_dict (JObj d) = Inr p) \<longleftrightarrow>
     (\<exists>raw. py_iter (py_or (dict_get d ''steps'') (JArr [])) = Inr raw
        \<and> (\<exists>ss. comprehension ProposalStep_from_dict raw = Inr ss))"
  by (auto split: sum.splits)

lemma Mission_proposals:
  "Mission_from_dict (JObj d) = Inr m \<Longrightarrow>
     \<exists>raw. py_iter (py_or (dict_get d ''proposals'') (JArr [])) = Inr raw
       \<and> comprehension Proposal_from_dict raw = Inr (mission_proposals m)"
  by (auto split: sum.splits)

lemma Mission_succeeds_iff:
  "(\<exists>m. Mission_from_dict (JObj d) = Inr m) \<longleftrightarrow>
     (\<exists>raw. py_iter (py_or (dict_get d ''proposals'') (JArr [])) = Inr raw
        \<and> (\<exists>ps. comprehension Proposal_from_dict raw = Inr ps))"
  by (auto split: sum.splits)

text \<open>
  C6. For every input mapping of \<open>Proposal.from_dict\<close> (of \<open>Mission.from_dict\<close>): when
  the key \<open>steps\<close> (\<open>proposals\<close>) is absent or holds null, deserialization succeeds and
  the record's list is empty. When the key holds an array, every record returned has the
  elements of the array deserialized with the nested constructor, one for one in the
  received order, and a record is returned exactly when the nested constructor accepts
  every element.
\<close>

theorem nested_collections_normalised:
  "(map_of d ''steps'' = None \<or> map_of d ''steps'' = Some JNull \<longrightarrow>
      (\<exists>p. Proposal_from_dict (JObj d) = Inr p \<and> proposal_steps p = []))
   \<and> (map_of d ''steps'' = Some (JArr xs) \<longrightarrow>
        (\<forall>p. Proposal_from_dict (JObj d) = Inr p \<longrightarrow>
              map Inr (proposal_steps p) = map ProposalStep_from_dict xs)
      \<and> ((\<exists>p. Proposal_from_dict (JObj d) = Inr p)
            = (\<exists>ss. map ProposalStep_from_dict xs = map Inr ss)))
   \<and> (map_of d ''proposals'' = None \<or> map_of d ''proposals'' = Some JNull \<longrightarrow>
        (\<exists>m. Mission_from_dict (JObj d) = Inr m \<and> mission_proposals m = []))
   \<and> (map_of d ''proposals'' = Some (JArr ys) \<longrightarrow>
        (\<forall>m. Mission_from_dict (JObj d) = Inr m \<longrightarrow>
              map Inr (mission_proposals m) = map Proposal_from_dict ys)
      \<and> ((\<exists>m. Mission_from_dict (JObj d) = Inr m)
            = (\<exists>ps. map Proposal_from_dict ys = map Inr ps)))"
proof (intro conjI impI allI)
  assume "map_of d ''steps'' = None \<or> map_of d ''steps'' = Some JNull"
  from raw_collection_absent [OF this]
  show "\<exists>p. Proposal_from_dict (JObj d) = Inr p \<and> proposal_steps p = []" by simp
next
  fix p
  assume "map_of d ''steps'' = Some (JArr xs)" and "Proposal_from_dict (JObj d) = Inr p"
  then show "map Inr (proposal_steps p) = map ProposalStep_from_dict xs"
    using raw_collection_array [of d "''steps''" xs] Proposal_steps [of d p]
    by (simp add: comprehension_Inr_iff)
next
  assume "map_of d ''steps'' = Some (JArr xs)"
  then show "(\<exists>p. Proposal_from_dict (JObj d) = Inr p)
       = (\<exists>ss. map ProposalStep_from_dict xs = map Inr ss)"
    using raw_collection_array [of d "''steps''" xs]
    by (simp add: Proposal_succeeds_iff comprehension_Inr_iff del: Proposal_from_dict.simps)
next
  assume "map_of d ''proposals'' = None \<or> map_of d ''proposals'' = Some JNull"
  from raw_collection_absent [OF this]
  show "\<exists>m. Mission_from_dict (JObj d) = Inr m \<and> mission_proposals m = []" by simp
next
  fix m
  assume "map_of d ''proposals'' = Some (JArr ys)" and "Mission_from_dict (JObj d) = Inr m"
  then show "map Inr (mission_proposals m) = map Proposal_from_dict ys"
    using raw_collection_array [of d "''proposals''" ys] Mission_proposals [of d m]
    by (simp add: comprehension_Inr_iff)
next
  assume "map_of d ''proposals'' = Some (JArr ys)"
  then show "(\<exists>m. Mission_from_dict (JObj d) = Inr m)
       = (\<exists>ps. map Proposal_from_dict ys = map Inr ps)"
    using raw_collection_array [of d "''proposals''" ys]
    by (simp add: Mission_succeeds_iff comprehension_Inr_iff del: Mission_from_dict.simps)
qed

theorem nested_collections_normalised_witness:
  "map_sum id (\<lambda>p. map step_title (proposal_steps p))
      (Proposal_from_dict (JObj [(''id'', JStr ''p1''), (''proposals'', JNull),
         (''steps'', JArr [JObj [(''title'', JStr ''S1'')], JObj [(''title'', JStr ''S2'')]])]))
     = Inr [JStr ''S1'', JStr ''S2'']
   \<and> map_sum id mission_proposals
      (Mission_from_dict (JObj [(''id'', JStr ''p1''), (''proposals'', JNull),
         (''steps'', JArr [JObj [(''title'', JStr ''S1'')], JObj [(''title'', JStr ''S2'')]])]))
     = Inr []
   \<and> map_sum id proposal_steps
      (Proposal_from_dict (JObj [(''id'', JStr ''m1''),
         (''proposals'', JArr [JObj [(''id'', JStr ''p1'')], JObj [(''id'', JStr ''p2'')]])]))
     = Inr []
   \<and> map_sum id (\<lambda>m. map proposal_id (mission_proposals m))
      (Mission_from_dict (JObj [(''id'', JStr ''m1''),
         (''proposals'', JArr [JObj [(''id'', JStr ''p1'')], JObj [(''id'', JStr ''p2'')]])]))
     = Inr [JStr ''p1'', JStr ''p2'']"
  (is "map_sum id _ (Proposal_from_dict (JObj ?d1)) = _ \<and> _
       \<and> map_sum id _ (Proposal_from_dict (JObj ?d2)) = _ \<and> _")
proof -
  let ?steps = "[JObj [(''title'', JStr ''S1'')], JObj [(''title'', JStr ''S2'')]]"
  let ?proposals = "[JObj [(''id'', JStr ''p1'')], JObj [(''id'', JStr ''p2'')]]"
  obtain p m where ok1: "Proposal_from_dict (JObj ?d1) = Inr p" "Mission_from_dict (JObj ?d1) = Inr m"
    by (simp add: dict_get_def py_or_def)
  obtain p' m' where ok2: "Proposal_from_dict (JObj ?d2) = Inr p'" "Mission_from_dict (JObj ?d2) = Inr m'"
    by (simp add: dict_get_def py_or_def)
  have steps: "map ProposalStep_from_dict ?steps
      = map Inr [\<lparr> step_title = JStr ''S1'', step_assigned_to = JStr '''',
                   step_prompt = JStr '''', step_status = JStr ''pending'',
                   step_result = JNull \<rparr>,
                 \<lparr> step_title = JStr ''S2'', step_assigned_to = JStr '''',
                   step_prompt = JStr '''', step_status = JStr ''pending'',
                   step_result = JNull \<rparr>]"
    by (simp add: dict_get_def dict_get_default_def)
  have proposals: "map (map_sum id proposal_id \<circ> Proposal_from_dict) ?proposals
      = [Inr (JStr ''p1''), Inr (JStr ''p2'')]"
    by (simp add: dict_get_def dict_get_default_def py_or_def)
  have "map (map_sum id proposal_id) (map Inr (mission_proposals m'))
      = map (map_sum id proposal_id) (map Proposal_from_dict ?proposals)"
    using nested_collections_normalised [of ?d2 ?steps ?proposals] ok2 by simp
  then have "map (Inr :: json \<Rightarrow> error + json) (map proposal_id (mission_proposals m'))
      = map Inr [JStr ''p1'', JStr ''p2'']"
    using proposals by (simp add: comp_def del: Proposal_from_dict.simps)
  then have m': "map proposal_id (mission_proposals m') = [JStr ''p1'', JStr ''p2'']"
    by (simp only: inj_map_eq_map [OF inj_Inr])
  have "map Inr (proposal_steps p) = map ProposalStep_from_dict ?steps"
    using nested_collections_normalised [of ?d1 ?steps ?proposals] ok1 by simp
  then have p: "proposal_steps p
      = [\<lparr> step_title = JStr ''S1'', step_assigned_to = JStr '''',
           step_prompt = JStr '''', step_status = JStr ''pending'', step_result = JNull \<rparr>,
         \<lparr> step_title = JStr ''S2'', step_assigned_to = JStr '''',
           step_prompt = JStr '''', step_status = JStr ''pending'', step_result = JNull \<rparr>]"
    by (simp only: steps inj_map_eq_map [OF inj_Inr])
  have "mission_proposals m = []" "proposal_steps p' = []"
    using nested_collections_normalised [of ?d1 ?steps ?proposals]
      nested_collections_normalised [of ?d2 ?steps ?proposals] ok1 ok2 by simp_all
  then show ?thesis
    using p m' ok1 ok2
    by (simp del: ProposalStep_from_dict.simps Proposal_from_dict.simps
        Mission_from_dict.simps)
qed

section \<open>When deserialization raises\<close>

lemma collection_succeeds_iff:
  "(\<exists>raw. py_iter (py_or v (JArr [])) = Inr raw \<and> (\<exists>ys. comprehension f raw = Inr ys))
     \<longleftrightarrow> (\<not> truthy v \<or> (\<exists>xs. v = JArr xs \<and> (\<forall>x \<in> set xs. \<exists>y. f x = Inr y)))"
  if "\<And>s. f (JStr s) = Inl AttributeError"
proof (cases v)
  case (JStr s)
  then show ?thesis using that by (cases s) (auto simp add: py_or_def)
next
  case (JObj m)
  then show ?thesis using that by (cases m) (auto simp add: py_or_def)
next
  case (JArr xs)
  then show ?thesis
    using comprehension_succeeds_iff [of f xs] by (cases xs) (auto simp add: py_or_def)
qed (auto simp add: py_or_def)

text \<open>
  C10 (as amended). \<open>Proposal.from_dict\<close> succeeds on a mapping exactly when its
  \<open>steps\<close> value is absent or falsy, or is an array whose elements are all mappings;
  \<open>Mission.from_dict\<close> succeeds exactly when its \<open>proposals\<close> value is absent or falsy,
  or is an array of values that \<open>Proposal.from_dict\<close> accepts. On the empty mapping both
  succeed with the defaults: \<open>id\<close>, \<open>title\<close> and \<open>description\<close> are the empty string
  and \<open>status\<close> is \<open>"pending"\<close> for a proposal and \<open>"active"\<close> for a mission.
  \<open>Agent.from_dict\<close> raises \<open>KeyError\<close> for \<open>id\<close> exactly when the key \<open>id\<close> is
  absent, and returns a record otherwise.
\<close>

theorem from_dict_success_conditions:
  "((\<exists>p. Proposal_from_dict (JObj d) = Inr p)
      = (\<not> truthy (dict_get d ''steps'')
         \<or> (\<exists>xs. dict_get d ''steps'' = JArr xs \<and> (\<forall>x \<in> set xs. \<exists>m. x = JObj m))))
   \<and> ((\<exists>m. Mission_from_dict (JObj d) = Inr m)
      = (\<not> truthy (dict_get d ''proposals'')
         \<or> (\<exists>xs. dict_get d ''proposals'' = JArr xs
               \<and> (\<forall>x \<in> set xs. \<exists>p. Proposal_from_dict x = Inr p))))
   \<and> Proposal_from_dict (JObj []) =
        Inr \<lparr> proposal_id = JStr '''', proposal_title = JStr '''',
              proposal_description = JStr '''', proposal_proposed_by = JStr '''',
              proposal_priority = JStr ''medium'', proposal_status = JStr ''pending'',
              proposal_steps = [], proposal_created_at = JNull, proposal_updated_at = JNull,
              proposal_metadata = [] \<rparr>
   \<and> Mission_from_dict (JObj []) =
        Inr \<lparr> mission_id = JStr '''', mission_title = JStr '''',
              mission_description = JStr '''', mission_status = JStr ''active'',
              mission_proposals = [], mission_created_at = JNull, mission_metadata = [] \<rparr>
   \<and> ((Agent_from_dict (JObj d) = Inl (KeyError ''id'')) = (map_of d ''id'' = None))
   \<and> ((\<exists>a. Agent_from_dict (JObj d) = Inr a) = (map_of d ''id'' \<noteq> None))"
proof (intro conjI)
  have step_str: "ProposalStep_from_dict (JStr s) = Inl AttributeError" for s by simp
  have proposal_str: "Proposal_from_dict (JStr s) = Inl AttributeError" for s by simp
  show "(\<exists>p. Proposal_from_dict (JObj d) = Inr p)
      = (\<not> truthy (dict_get d ''steps'')
         \<or> (\<exists>xs. dict_get d ''steps'' = JArr xs \<and> (\<forall>x \<in> set xs. \<exists>m. x = JObj m)))"
    unfolding Proposal_succeeds_iff
    using collection_succeeds_iff [of ProposalStep_from_dict "dict_get d ''steps''", OF step_str]
    by (simp add: ProposalStep_from_dict_succeeds_iff del: ProposalStep_from_dict.simps)
  show "(\<exists>m. Mission_from_dict (JObj d) = Inr m)
      = (\<not> truthy (dict_get d ''proposals'')
         \<or> (\<exists>xs. dict_get d ''proposals'' = JArr xs
               \<and> (\<forall>x \<in> set xs. \<exists>p. Proposal_from_dict x = Inr p)))"
    unfolding Mission_succeeds_iff
    using collection_succeeds_iff [of Proposal_from_dict "dict_get d ''proposals''", OF proposal_str]
    by (simp del: Proposal_from_dict.simps)
  show "(Agent_from_dict (JObj d) = Inl (KeyError ''id'')) = (map_of d ''id'' = None)"
    by (auto simp add: dict_item_def split: option.splits)
  show "(\<exists>a. Agent_from_dict (JObj d) = Inr a) = (map_of d ''id'' \<noteq> None)"
    by (auto simp add: dict_item_def split: option.splits)
qed (simp_all add: dict_get_def dict_get_default_def py_or_def)

text \<open>
  A proposal whose \<open>steps\<close> array holds a string instead of a mapping makes
  \<open>Proposal.from_dict\<close> raise: \<open>ProposalStep.from_dict\<close> calls \<open>get\<close> on the string.
\<close>

theorem proposal_steps_of_strings_counterexample:
  "Proposal_from_dict (JObj [(''id'', JStr ''p1''), (''steps'', JArr [JStr ''build''])])
     = Inl AttributeError"
  by (simp add: dict_get_def py_or_def)

theorem from_dict_success_conditions_witness:
  "(\<exists>p. Proposal_from_dict
          (JObj [(''id'', JStr ''p1''), (''steps'', JArr [JObj [(''title'', JStr ''S1'')]])])
        = Inr p)
   \<and> (\<exists>m. Mission_from_dict
          (JObj [(''id'', JStr ''p1''), (''steps'', JArr [JObj [(''title'', JStr ''S1'')]])])
        = Inr m)
   \<and> (\<exists>a. Agent_from_dict
          (JObj [(''id'', JStr ''p1''), (''steps'', JArr [JObj [(''title'', JStr ''S1'')]])])
        = Inr a)
   \<and> Agent_from_dict (JObj [(''name'', JStr ''Scout'')]) = Inl (KeyError ''id'')"
  using from_dict_success_conditions
      [of "[(''id'', JStr ''p1''), (''steps'', JArr [JObj [(''title'', JStr ''S1'')]])]"]
    from_dict_success_conditions [of "[(''name'', JStr ''Scout'')]"]
  by (simp add: dict_get_def
      del: Agent_from_dict.simps Proposal_from_dict.simps Mission_from_dict.simps)

section \<open>Resolution of dual-named fields\<close>

lemma or_resolution:
  "(map_of d snake = Some v \<and> truthy v \<longrightarrow> py_or (dict_get d snake) (dict_get d camel) = v)
   \<and> (map_of d snake = Some w \<and> \<not> truthy w \<longrightarrow>
        py_or (dict_get d snake) (dict_get d camel) = dict_get d camel)
   \<and> (map_of d snake = None \<longrightarrow>
        py_or (dict_get d snake) (dict_get d camel) = dict_get d camel)"
  by (simp add: py_or_def dict_get_def)

lemma get_resolution:
  "(map_of d snake = Some v \<longrightarrow>
      dict_get_default d snake (dict_get_default d camel dflt) = v)
   \<and> (map_of d snake = None \<longrightarrow>
        dict_get_default d snake (dict_get_default d camel dflt) = dict_get_default d camel dflt)"
  by (simp add: dict_get_default_def)

lemma Agent_last_heartbeat:
  "Agent_from_dict (JObj d) = Inr a \<Longrightarrow>
     agent_last_heartbeat a = py_or (dict_get d ''last_heartbeat'') (dict_get d ''lastHeartbeat'')"
  by (auto split: sum.splits)

lemma ProposalStep_assigned_to:
  "ProposalStep_from_dict (JObj d) = Inr s \<Longrightarrow>
     step_assigned_to s =
       dict_get_default d ''assigned_to'' (dict_get_default d ''assignedTo'' (JStr ''''))"
  by auto

lemma Proposal_dual_fields:
  "Proposal_from_dict (JObj d) = Inr p \<Longrightarrow>
     proposal_proposed_by p =
       dict_get_default d ''proposed_by'' (dict_get_default d ''proposedBy'' (JStr ''''))
     \<and> proposal_created_at p = py_or (dict_get d ''created_at'') (dict_get d ''createdAt'')
     \<and> proposal_updated_at p = py_or (dict_get d ''updated_at'') (dict_get d ''updatedAt'')"
  by (auto split: sum.splits)

lemma Mission_created_at:
  "Mission_from_dict (JObj d) = Inr m \<Longrightarrow>
     mission_created_at m = py_or (dict_get d ''created_at'') (dict_get d ''createdAt'')"
  by (auto split: sum.splits)

text \<open>
  C2 (as amended). For \<open>assigned_to\<close> (ProposalStep) and \<open>proposed_by\<close> (Proposal),
  read with nested \<open>get\<close> defaults, the field is the snake_case key's value whenever that
  key is present, and the camelCase key's value (or the empty string) when it is absent.
  For \<open>last_heartbeat\<close> (Agent), \<open>created_at\<close> and \<open>updated_at\<close> (Proposal) and
  \<open>created_at\<close> (Mission), read with \<open>or\<close>, the field is the snake_case key's value
  when that key is present with a truthy value, and the camelCase key's value (or
  \<open>None\<close>) when the snake_case key is absent or holds a falsy value. So an input with
  only the snake_case form and one with only the camelCase form give the same field for
  every value of the first two fields and for every truthy value of the others.
\<close>

theorem dual_key_resolution:
  "(Agent_from_dict (JObj d) = Inr a \<longrightarrow>
      (map_of d ''last_heartbeat'' = Some v \<and> truthy v \<longrightarrow> agent_last_heartbeat a = v)
    \<and> (map_of d ''last_heartbeat'' = Some w \<and> \<not> truthy w \<longrightarrow>
         agent_last_heartbeat a = dict_get d ''lastHeartbeat'')
    \<and> (map_of d ''last_heartbeat'' = None \<longrightarrow>
         agent_last_heartbeat a = dict_get d ''lastHeartbeat''))
   \<and> (ProposalStep_from_dict (JObj d) = Inr s \<longrightarrow>
      (map_of d ''assigned_to'' = Some v \<longrightarrow> step_assigned_to s = v)
    \<and> (map_of d ''assigned_to'' = None \<longrightarrow>
         step_assigned_to s = dict_get_default d ''assignedTo'' (JStr '''')))
   \<and> (Proposal_from_dict (JObj d) = Inr p \<longrightarrow>
      (map_of d ''proposed_by'' = Some v \<longrightarrow> proposal_proposed_by p = v)
    \<and> (map_of d ''proposed_by'' = None \<longrightarrow>
         proposal_proposed_by p = dict_get_default d ''proposedBy'' (JStr ''''))
    \<and> (map_of d ''created_at'' = Some v \<and> truthy v \<longrightarrow> proposal_created_at p = v)
    \<and> (map_of d ''created_at'' = Some w \<and> \<not> truthy w \<longrightarrow>
         proposal_created_at p = dict_get d ''createdAt'')
    \<and> (map_of d ''created_at'' = None \<longrightarrow> proposal_created_at p = dict_get d ''createdAt'')
    \<and> (map_of d ''updated_at'' = Some v \<and> truthy v \<longrightarrow> proposal_updated_at p = v)
    \<and> (map_of d ''updated_at'' = Some w \<and> \<not> truthy w \<longrightarrow>
         proposal_updated_at p = dict_get d ''updatedAt'')
    \<and> (map_of d ''updated_at'' = None \<longrightarrow> proposal_updated_at p = dict_get d ''updatedAt''))
   \<and> (Mission_from_dict (JObj d) = Inr m \<longrightarrow>
      (map_of d ''created_at'' = Some v \<and> truthy v \<longrightarrow> mission_created_at m = v)
    \<and> (map_of d ''created_at'' = Some w \<and> \<not> truthy w \<longrightarrow>
         mission_created_at m = dict_get d ''createdAt'')
    \<and> (map_of d ''created_at'' = None \<longrightarrow> mission_created_at m = dict_get d ''createdAt''))"
proof (intro conjI)
  show "Agent_from_dict (JObj d) = Inr a \<longrightarrow>
      (map_of d ''last_heartbeat'' = Some v \<and> truthy v \<longrightarrow> agent_last_heartbeat a = v)
    \<and> (map_of d ''last_heartbeat'' = Some w \<and> \<not> truthy w \<longrightarrow>
         agent_last_heartbeat a = dict_get d ''lastHeartbeat'')
    \<and> (map_of d ''last_heartbeat'' = None \<longrightarrow>
         agent_last_heartbeat a = dict_get d ''lastHeartbeat'')"
    using Agent_last_heartbeat [of d a]
      or_resolution [of d "''last_heartbeat''" v "''lastHeartbeat''" w]
    by (simp del: Agent_from_dict.simps)
  show "ProposalStep_from_dict (JObj d) = Inr s \<longrightarrow>
      (map_of d ''assigned_to'' = Some v \<longrightarrow> step_assigned_to s = v)
    \<and> (map_of d ''assigned_to'' = None \<longrightarrow>
         step_assigned_to s = dict_get_default d ''assignedTo'' (JStr ''''))"
    using ProposalStep_assigned_to [of d s]
      get_resolution [of d "''assigned_to''" v "''assignedTo''" "JStr ''''"]
    by (simp del: ProposalStep_from_dict.simps)
  show "Proposal_from_dict (JObj d) = Inr p \<longrightarrow>
      (map_of d ''proposed_by'' = Some v \<longrightarrow> proposal_proposed_by p = v)
    \<and> (map_of d ''proposed_by'' = None \<longrightarrow>
         proposal_proposed_by p = dict_get_default d ''proposedBy'' (JStr ''''))
    \<and> (map_of d ''created_at'' = Some v \<and> truthy v \<longrightarrow> proposal_created_at p = v)
    \<and> (map_of d ''created_at'' = Some w \<and> \<not> truthy w \<longrightarrow>
         proposal_created_at p = dict_get d ''createdAt'')
    \<and> (map_of d ''created_at'' = None \<longrightarrow> proposal_created_at p = dict_get d ''createdAt'')
    \<and> (map_of d ''updated_at'' = Some v \<and> truthy v \<longrightarrow> proposal_updated_at p = v)
    \<and> (map_of d ''updated_at'' = Some w \<and> \<not> truthy w \<longrightarrow>
         proposal_updated_at p = dict_get d ''updatedAt'')
    \<and> (map_of d ''updated_at'' = None \<longrightarrow> proposal_updated_at p = dict_get d ''updatedAt'')"
    using Proposal_dual_fields [of d p]
      get_resolution [of d "''proposed_by''" v "''proposedBy''" "JStr ''''"]
      or_resolution [of d "''created_at''" v "''createdAt''" w]
      or_resolution [of d "''updated_at''" v "''updatedAt''" w]
    by (simp del: Proposal_from_dict.simps)
  show "Mission_from_dict (JObj d) = Inr m \<longrightarrow>
      (map_of d ''created_at'' = Some v \<and> truthy v \<longrightarrow> mission_created_at m = v)
    \<and> (map_of d ''created_at'' = Some w \<and> \<not> truthy w \<longrightarrow>
         mission_created_at m = dict_get d ''createdAt'')
    \<and> (map_of d ''created_at'' = None \<longrightarrow> mission_created_at m = dict_get d ''createdAt'')"
    using Mission_created_at [of d m]
      or_resolution [of d "''created_at''" v "''createdAt''" w]
    by (simp del: Mission_from_dict.simps)
qed

text \<open>
  With both keys present and different values, an empty snake_case \<open>last_heartbeat\<close>
  loses to the camelCase value.
\<close>

theorem falsy_snake_case_counterexample:
  "Agent_from_dict
     (JObj [(''id'', JStr ''scout''), (''last_heartbeat'', JStr ''''),
            (''lastHeartbeat'', JStr ''2026-02-23T00:00:00Z'')])
   = Inr \<lparr> agent_id = JStr ''scout'', agent_name = JStr ''scout'',
           agent_status = JStr ''unknown'', agent_role = JStr '''', agent_model = JStr '''',
           agent_last_heartbeat = JStr ''2026-02-23T00:00:00Z'', agent_metadata = [] \<rparr>"
  by (simp add: dict_item_def dict_get_def dict_get_default_def py_or_def Agent_known_keys_def)

theorem dual_key_resolution_witness:
  "map_sum id agent_last_heartbeat
      (Agent_from_dict (JObj [(''id'', JStr ''x''),
         (''last_heartbeat'', JStr ''snake''), (''lastHeartbeat'', JStr ''camel''),
         (''assigned_to'', JStr ''snake''), (''assignedTo'', JStr ''camel''),
         (''proposed_by'', JStr ''snake''), (''proposedBy'', JStr ''camel''),
         (''created_at'', JStr ''snake''), (''createdAt'', JStr ''camel''),
         (''updated_at'', JStr ''snake''), (''updatedAt'', JStr ''camel'')]))
     = Inr (JStr ''snake'')
   \<and> map_sum id step_assigned_to
      (ProposalStep_from_dict (JObj [(''id'', JStr ''x''),
         (''last_heartbeat'', JStr ''snake''), (''lastHeartbeat'', JStr ''camel''),
         (''assigned_to'', JStr ''snake''), (''assignedTo'', JStr ''camel''),
         (''proposed_by'', JStr ''snake''), (''proposedBy'', JStr ''camel''),
         (''created_at'', JStr ''snake''), (''createdAt'', JStr ''camel''),
         (''updated_at'', JStr ''snake''), (''updatedAt'', JStr ''camel'')]))
     = Inr (JStr ''snake'')
   \<and> map_sum id (\<lambda>p. [proposal_proposed_by p, proposal_created_at p, proposal_updated_at p])
      (Proposal_from_dict (JObj [(''id'', JStr ''x''),
         (''last_heartbeat'', JStr ''snake''), (''lastHeartbeat'', JStr ''camel''),
         (''assigned_to'', JStr ''snake''), (''assignedTo'', JStr ''camel''),
         (''proposed_by'', JStr ''snake''), (''proposedBy'', JStr ''camel''),
         (''created_at'', JStr ''snake''), (''createdAt'', JStr ''camel''),
         (''updated_at'', JStr ''snake''), (''updatedAt'', JStr ''camel'')]))
     = Inr [JStr ''snake'', JStr ''snake'', JStr ''snake'']
   \<and> map_sum id mission_created_at
      (Mission_from_dict (JObj [(''id'', JStr ''x''),
         (''last_heartbeat'', JStr ''snake''), (''lastHeartbeat'', JStr ''camel''),
         (''assigned_to'', JStr ''snake''), (''assignedTo'', JStr ''camel''),
         (''proposed_by'', JStr ''snake''), (''proposedBy'', JStr ''camel''),
         (''created_at'', JStr ''snake''), (''createdAt'', JStr ''camel''),
         (''updated_at'', JStr ''snake''), (''updatedAt'', JStr ''camel'')]))
     = Inr (JStr ''snake'')
   \<and> map_sum id agent_last_heartbeat
      (Agent_from_dict (JObj [(''id'', JStr ''x''), (''lastHeartbeat'', JStr ''camel''),
         (''assignedTo'', JStr ''camel''), (''proposedBy'', JStr ''camel''),
         (''createdAt'', JStr ''camel''), (''updatedAt'', JStr ''camel'')]))
     = Inr (JStr ''camel'')
   \<and> map_sum id step_assigned_to
      (ProposalStep_from_dict (JObj [(''id'', JStr ''x''), (''lastHeartbeat'', JStr ''camel''),
         (''assignedTo'', JStr ''camel''), (''proposedBy'', JStr ''camel''),
         (''createdAt'', JStr ''camel''), (''updatedAt'', JStr ''camel'')]))
     = Inr (JStr ''camel'')
   \<and> map_sum id (\<lambda>p. [proposal_proposed_by p, proposal_created_at p, proposal_updated_at p])
      (Proposal_from_dict (JObj [(''id'', JStr ''x''), (''lastHeartbeat'', JStr ''camel''),
         (''assignedTo'', JStr ''camel''), (''proposedBy'', JStr ''camel''),
         (''createdAt'', JStr ''camel''), (''updatedAt'', JStr ''camel'')]))
     = Inr [JStr ''camel'', JStr ''camel'', JStr ''camel'']
   \<and> map_sum id mission_created_at
      (Mission_from_dict (JObj [(''id'', JStr ''x''), (''lastHeartbeat'', JStr ''camel''),
         (''assignedTo'', JStr ''camel''), (''proposedBy'', JStr ''camel''),
         (''createdAt'', JStr ''camel''), (''updatedAt'', JStr ''camel'')]))
     = Inr (JStr ''camel'')"
  (is "map_sum id agent_last_heartbeat (Agent_from_dict (JObj ?both)) = _ \<and> _ \<and> _ \<and> _
       \<and> map_sum id agent_last_heartbeat (Agent_from_dict (JObj ?camel)) = _ \<and> _ \<and> _ \<and> _")
proof -
  obtain a s p m where both:
    "Agent_from_dict (JObj ?both) = Inr a" "ProposalStep_from_dict (JObj ?both) = Inr s"
    "Proposal_from_dict (JObj ?both) = Inr p" "Mission_from_dict (JObj ?both) = Inr m"
    by (simp add: dict_item_def dict_get_def py_or_def)
  obtain a' s' p' m' where camel:
    "Agent_from_dict (JObj ?camel) = Inr a'" "ProposalStep_from_dict (JObj ?camel) = Inr s'"
    "Proposal_from_dict (JObj ?camel) = Inr p'" "Mission_from_dict (JObj ?camel) = Inr m'"
    by (simp add: dict_item_def dict_get_def py_or_def)
  show ?thesis
    using dual_key_resolution [of ?both a "JStr ''snake''" JNull s p m]
      dual_key_resolution [of ?camel a' "JStr ''snake''" JNull s' p' m'] both camel
    by (simp add: dict_get_def dict_get_default_def
        del: Agent_from_dict.simps ProposalStep_from_dict.simps Proposal_from_dict.simps
          Mission_from_dict.simps)
qed

section \<open>List operations\<close>

lemma raw_records_cases:
  "(map_of d key = Some v \<longrightarrow> raw_records key (JObj d) = v)
   \<and> (map_of d key = None \<and> map_of d ''data'' = Some v \<longrightarrow> raw_records key (JObj d) = v)
   \<and> (map_of d key = None \<and> map_of d ''data'' = None \<longrightarrow> raw_records key (JObj d) = JArr [])
   \<and> raw_records key (JArr xs) = JArr xs"
  by (simp add: dict_get_default_def)

lemma records_in_order:
  assumes "raw_records key body = JArr xs"
  shows "((case py_iter (raw_records key body) of
             Inl e \<Rightarrow> Inl e
           | Inr raw \<Rightarrow> comprehension f raw) = Inr ys) = (map f xs = map Inr ys)"
  using assms by (simp add: comprehension_Inr_iff)

lemma records_from_response:
  "(body = JObj d \<and> map_of d key = Some (JArr xs) \<longrightarrow>
      ((case py_iter (raw_records key body) of
          Inl e \<Rightarrow> Inl e | Inr raw \<Rightarrow> comprehension f raw) = Inr ys)
        = (map f xs = map Inr ys))
   \<and> (body = JObj d \<and> map_of d key = None \<and> map_of d ''data'' = Some (JArr xs) \<longrightarrow>
      ((case py_iter (raw_records key body) of
          Inl e \<Rightarrow> Inl e | Inr raw \<Rightarrow> comprehension f raw) = Inr ys)
        = (map f xs = map Inr ys))
   \<and> (body = JObj d \<and> map_of d key = None \<and> map_of d ''data'' = None \<longrightarrow>
      (case py_iter (raw_records key body) of
          Inl e \<Rightarrow> Inl e | Inr raw \<Rightarrow> comprehension f raw) = Inr [])
   \<and> (body = JArr xs \<longrightarrow>
      ((case py_iter (raw_records key body) of
          Inl e \<Rightarrow> Inl e | Inr raw \<Rightarrow> comprehension f raw) = Inr ys)
        = (map f xs = map Inr ys))"
  by (simp add: dict_get_default_def comprehension_Inr_iff)

text \<open>
  C8. For every response body that \<open>list_agents\<close> receives from the request helper
  (and \<open>list_proposals\<close> with the key \<open>proposals\<close>, \<open>list_missions\<close> with the key
  \<open>missions\<close>): if the body is a mapping, the raw records are the array under the
  entity's key when that key is present, otherwise the array under \<open>data\<close> when that key
  is present, otherwise there are none and the result is the empty list; if the body is
  an array, it is the list of raw records. The operation returns a list exactly when
  that list is the raw records deserialized one for one in the received order.
\<close>

theorem list_operations_unwrap_in_order:
  "(XSkynetClient_request send loads c ''GET'' ''/api/ops/agents'' None None = Inr body \<longrightarrow>
      (body = JObj d \<and> map_of d ''agents'' = Some (JArr xs) \<longrightarrow>
         (XSkynetClient_list_agents send loads c = Inr agents)
           = (map Agent_from_dict xs = map Inr agents))
    \<and> (body = JObj d \<and> map_of d ''agents'' = None \<and> map_of d ''data'' = Some (JArr xs) \<longrightarrow>
         (XSkynetClient_list_agents send loads c = Inr agents)
           = (map Agent_from_dict xs = map Inr agents))
    \<and> (body = JObj d \<and> map_of d ''agents'' = None \<and> map_of d ''data'' = None \<longrightarrow>
         XSkynetClient_list_agents send loads c = Inr [])
    \<and> (body = JArr xs \<longrightarrow>
         (XSkynetClient_list_agents send loads c = Inr agents)
           = (map Agent_from_dict xs = map Inr agents)))
   \<and> (XSkynetClient_request send loads c ''GET'' ''/api/ops/proposals'' None
         (Some (list_proposals_params st limit)) = Inr body \<longrightarrow>
      (body = JObj d \<and> map_of d ''proposals'' = Some (JArr xs) \<longrightarrow>
         (XSkynetClient_list_proposals send loads c st limit = Inr proposals)
           = (map Proposal_from_dict xs = map Inr proposals))
    \<and> (body = JObj d \<and> map_of d ''proposals'' = None \<and> map_of d ''data'' = Some (JArr xs) \<longrightarrow>
         (XSkynetClient_list_proposals send loads c st limit = Inr proposals)
           = (map Proposal_from_dict xs = map Inr proposals))
    \<and> (body = JObj d \<and> map_of d ''proposals'' = None \<and> map_of d ''data'' = None \<longrightarrow>
         XSkynetClient_list_proposals send loads c st limit = Inr [])
    \<and> (body = JArr xs \<longrightarrow>
         (XSkynetClient_list_proposals send loads c st limit = Inr proposals)
           = (map Proposal_from_dict xs = map Inr proposals)))
   \<and> (XSkynetClient_request send loads c ''GET'' ''/api/ops/missions'' None
         (Some [(''limit'', JInt mission_limit)]) = Inr body \<longrightarrow>
      (body = JObj d \<and> map_of d ''missions'' = Some (JArr xs) \<longrightarrow>
         (XSkynetClient_list_missions send loads c mission_limit = Inr missions)
           = (map Mission_from_dict xs = map Inr missions))
    \<and> (body = JObj d \<and> map_of d ''missions'' = None \<and> map_of d ''data'' = Some (JArr xs) \<longrightarrow>
         (XSkynetClient_list_missions send loads c mission_limit = Inr missions)
           = (map Mission_from_dict xs = map Inr missions))
    \<and> (body = JObj d \<and> map_of d ''missions'' = None \<and> map_of d ''data'' = None \<longrightarrow>
         XSkynetClient_list_missions send loads c mission_limit = Inr [])
    \<and> (body = JArr xs \<longrightarrow>
         (XSkynetClient_list_missions send loads c mission_limit = Inr missions)
           = (map Mission_from_dict xs = map Inr missions)))"
  (is "(?agents_response \<longrightarrow> ?agents_result) \<and> (?proposals_response \<longrightarrow> ?proposals_result)
       \<and> (?missions_response \<longrightarrow> ?missions_result)")
proof -
  have agents_part: "?agents_response \<longrightarrow> ?agents_result"
  proof
    assume ?agents_response
    then have "XSkynetClient_list_agents send loads c =
        (case py_iter (raw_records ''agents'' body) of
           Inl e \<Rightarrow> Inl e | Inr raw \<Rightarrow> comprehension Agent_from_dict raw)"
      by (simp add: XSkynetClient_list_agents_def)
    then show ?agents_result
      using records_from_response [of body d "''agents''" xs Agent_from_dict agents]
      by simp
  qed
  have proposals_part: "?proposals_response \<longrightarrow> ?proposals_result"
  proof
    assume ?proposals_response
    then have "XSkynetClient_list_proposals send loads c st limit =
        (case py_iter (raw_records ''proposals'' body) of
           Inl e \<Rightarrow> Inl e | Inr raw \<Rightarrow> comprehension Proposal_from_dict raw)"
      by (simp add: XSkynetClient_list_proposals_def)
    then show ?proposals_result
      using records_from_response [of body d "''proposals''" xs Proposal_from_dict proposals]
      by simp
  qed
  have missions_part: "?missions_response \<longrightarrow> ?missions_result"
  proof
    assume ?missions_response
    then have "XSkynetClient_list_missions send loads c mission_limit =
        (case py_iter (raw_records ''missions'' body) of
           Inl e \<Rightarrow> Inl e | Inr raw \<Rightarrow> comprehension Mission_from_dict raw)"
      by (simp add: XSkynetClient_list_missions_def)
    then show ?missions_result
      using records_from_response [of body d "''missions''" xs Mission_from_dict missions]
      by simp
  qed
  show ?thesis by (rule conjI [OF agents_part conjI [OF proposals_part missions_part]])
qed

theorem list_operations_unwrap_in_order_witness:
  "XSkynetClient_list_agents
     (\<lambda>rq. Inr \<lparr> resp_status_code = 200, resp_content = ''agents-body'',
                  resp_text = ''agents-body'' \<rparr>)
     (\<lambda>s. if s = ''agents-body''
           then Some (JObj [(''agents'',
                  JArr [JObj [(''id'', JStr ''scout''), (''name'', JStr ''Scout''),
                              (''status'', JStr ''healthy'')],
                        JObj [(''id'', JStr ''minion''), (''name'', JStr ''Minion''),
                              (''status'', JStr ''idle'')]])])
           else None)
     (XSkynetClient_init ''https://example.com/'' ''key'' 30 3)
   = Inr [\<lparr> agent_id = JStr ''scout'', agent_name = JStr ''Scout'',
             agent_status = JStr ''healthy'', agent_role = JStr '''', agent_model = JStr '''',
             agent_last_heartbeat = JNull, agent_metadata = [] \<rparr>,
          \<lparr> agent_id = JStr ''minion'', agent_name = JStr ''Minion'',
             agent_status = JStr ''idle'', agent_role = JStr '''', agent_model = JStr '''',
             agent_last_heartbeat = JNull, agent_metadata = [] \<rparr>]
   \<and> XSkynetClient_list_proposals
     (\<lambda>rq. Inr \<lparr> resp_status_code = 200, resp_content = ''agents-body'',
                  resp_text = ''agents-body'' \<rparr>)
     (\<lambda>s. if s = ''agents-body''
           then Some (JObj [(''agents'',
                  JArr [JObj [(''id'', JStr ''scout''), (''name'', JStr ''Scout''),
                              (''status'', JStr ''healthy'')],
                        JObj [(''id'', JStr ''minion''), (''name'', JStr ''Minion''),
                              (''status'', JStr ''idle'')]])])
           else None)
     (XSkynetClient_init ''https://example.com/'' ''key'' 30 3) None 50
   = Inr []
   \<and> XSkynetClient_list_missions
     (\<lambda>rq. Inr \<lparr> resp_status_code = 200, resp_content = ''agents-body'',
                  resp_text = ''agents-body'' \<rparr>)
     (\<lambda>s. if s = ''agents-body''
           then Some (JObj [(''agents'',
                  JArr [JObj [(''id'', JStr ''scout''), (''name'', JStr ''Scout''),
                              (''status'', JStr ''healthy'')],
                        JObj [(''id'', JStr ''minion''), (''name'', JStr ''Minion''),
                              (''status'', JStr ''idle'')]])])
           else None)
     (XSkynetClient_init ''https://example.com/'' ''key'' 30 3) 20
   = Inr []"
  (is "XSkynetClient_list_agents ?send ?loads ?c = Inr ?agents \<and> _ \<and> _")
proof -
  let ?xs = "[JObj [(''id'', JStr ''scout''), (''name'', JStr ''Scout''),
                    (''status'', JStr ''healthy'')],
              JObj [(''id'', JStr ''minion''), (''name'', JStr ''Minion''),
                    (''status'', JStr ''idle'')]]"
  let ?d = "[(''agents'', JArr ?xs)]"
  have response: "XSkynetClient_request ?send ?loads ?c verb path None params = Inr (JObj ?d)"
    for verb path params
    by (simp add: XSkynetClient_request_def resp_ok_def)
  have records: "map Agent_from_dict ?xs = map Inr ?agents"
    by (simp add: dict_item_def dict_get_def dict_get_default_def py_or_def
        Agent_known_keys_def)
  show ?thesis
    using list_operations_unwrap_in_order
      [of ?send ?loads ?c "JObj ?d" ?d ?xs ?agents None 50 "[]" 20 "[]"]
      response records
    by (simp add: dict_item_def dict_get_def dict_get_default_def py_or_def
        Agent_known_keys_def)
qed

end
